theory Spec2Isabelle
  imports Complex_Main
begin

section \<open>The GPU memory occupation script\<close>

text \<open>
  A shallow embedding of \<^verbatim>\<open>scripts/occupy_gpu.py\<close>. The script parses a list of GPU
  ids, validates them against the device count, allocates one tensor per id, then sleeps
  in a loop that touches the tensors, until the duration has passed or a signal arrives.

  Everything the script asks of its surroundings is an input of the model: whether PyTorch
  and CUDA are there, the device count, the outcome of each allocation, the clock, and
  what happens during each iteration of the hold loop (a signal, an error raised by a
  touch, or nothing). Progress messages on standard output are left out; the message on
  standard error is the \<open>error\<close> value of the outcome.
\<close>

subsection \<open>Command line\<close>

text \<open>
  The result of \<^verbatim>\<open>parse_args\<close>: \<^verbatim>\<open>--gpus\<close> (a string), \<^verbatim>\<open>--memory\<close> (a float, here a
  rational: every finite float is one) and \<^verbatim>\<open>--duration\<close> (an int, default 0; argparse's
  \<^verbatim>\<open>type=int\<close> accepts negative numbers).
\<close>

record args =
  gpus :: string
  memory :: rat
  duration :: int

subsection \<open>Errors, tensors and backend calls\<close>

datatype error =
    TorchNotInstalled
  | CudaNotAvailable
  | InvalidGpuIds
  | GpuNotFound int int
  | NotEnoughMemory int rat
  | AllocationError int
  | UncaughtRuntimeError

record tensor =
  device :: int
  num_elements :: int

text \<open>
  The calls that change or touch device memory, in the order the script makes them.
  \<open>Clear ts\<close> is \<^verbatim>\<open>tensors.clear()\<close> on a list holding \<open>ts\<close>: one call that drops every
  element of the list. \<open>TouchAdd i\<close> and \<open>TouchSub i\<close> are \<^verbatim>\<open>t += 0.0001\<close> and
  \<^verbatim>\<open>t -= 0.0001\<close> on \<^verbatim>\<open>tensors[i]\<close>.
\<close>

datatype event =
    Alloc tensor
  | AllocFail int
  | Clear "tensor list"
  | EmptyCache
  | Sleep nat
  | TouchAdd nat
  | TouchSub nat

subsection \<open>The surroundings\<close>

datatype dep_status = NoTorch | NoCuda | TorchWithCuda

datatype alloc_result = AllocOk | OutOfMemory | OtherRuntimeError

text \<open>
  What disturbs one iteration of the hold loop, if anything. Python runs a signal handler
  in the main thread, between two bytecode instructions or inside an interrupted
  \<^verbatim>\<open>time.sleep\<close>. So a signal can be served while the loop sleeps, between the two
  statements of a touch, after a touch, or just before the duration is compared; which of
  the points between statements an interpreter really uses depends on its version, and
  the model allows all of them. A touch can raise a \<^verbatim>\<open>RuntimeError\<close> of the backend.
  Signals before the handlers are installed or after the loop has been left are not
  modelled.
\<close>

datatype disturbance =
    SignalInSleep
  | SignalAfterAdd nat
  | SignalAfterSub nat
  | SignalBeforeCheck
  | AddRaises nat
  | SubRaises nat

text \<open>
  One iteration as the surroundings see it: the disturbance, and the value
  \<^verbatim>\<open>time.time()\<close> returns at the end of the iteration when it gets there.
\<close>

record tick =
  disturbance :: "disturbance option"
  now :: real

text \<open>
  The surroundings of one run. \<open>backend i\<close> is how the allocation with index \<open>i\<close> (the
  \<open>i\<close>-th call of \<^verbatim>\<open>allocate_memory\<close>, counted from 0) ends, \<open>start_time\<close> is the value of
  \<^verbatim>\<open>time.time()\<close> before the loop, and \<open>ticks\<close> are the iterations of the hold loop the
  process has been given so far.
\<close>

record env =
  deps :: dep_status
  device_count :: int
  backend :: "nat \<Rightarrow> alloc_result"
  start_time :: real
  ticks :: "tick list"

text \<open>
  Two backends: one on which every allocation succeeds, and one on which the allocation
  with index \<open>k\<close> runs out of memory.
\<close>

definition backend_ok :: "nat \<Rightarrow> alloc_result" where
  "backend_ok i = AllocOk"

definition backend_full_at :: "nat \<Rightarrow> nat \<Rightarrow> alloc_result" where
  "backend_full_at k i = (if i = k then OutOfMemory else AllocOk)"

subsection \<open>\<^verbatim>\<open>check_dependencies\<close>\<close>

definition check_dependencies :: "dep_status \<Rightarrow> error + unit" where
  "check_dependencies d =
     (case d of
        NoTorch \<Rightarrow> Inl TorchNotInstalled
      | NoCuda \<Rightarrow> Inl CudaNotAvailable
      | TorchWithCuda \<Rightarrow> Inr ())"

subsection \<open>Parsing the GPU ids\<close>

text \<open>
  \<^verbatim>\<open>[int(x.strip()) for x in args.gpus.split(',')]\<close>, for ASCII input: \<^verbatim>\<open>split\<close> cuts at
  every comma (an empty string gives one empty piece), \<^verbatim>\<open>strip\<close> removes white space at
  both ends, and \<^verbatim>\<open>int\<close> reads an optional sign and decimal digits, with single
  underscores allowed between digits. A \<^verbatim>\<open>ValueError\<close> is \<open>None\<close>. The interpreter's
  limit on the number of digits is left out.
\<close>

fun py_split :: "char \<Rightarrow> string \<Rightarrow> string list" where
  "py_split sep [] = [[]]"
| "py_split sep (c # cs) =
     (if c = sep then [] # py_split sep cs
      else (case py_split sep cs of
              [] \<Rightarrow> [[c]]
            | p # ps \<Rightarrow> (c # p) # ps))"

definition is_space :: "char \<Rightarrow> bool" where
  "is_space c =
     (let n = (of_char c :: nat)
      in (9 \<le> n \<and> n \<le> 13) \<or> (28 \<le> n \<and> n \<le> 32))"

definition py_strip :: "string \<Rightarrow> string" where
  "py_strip s = rev (dropWhile is_space (rev (dropWhile is_space s)))"

definition is_digit :: "char \<Rightarrow> bool" where
  "is_digit c = (let n = (of_char c :: nat) in 48 \<le> n \<and> n \<le> 57)"

definition digit_val :: "char \<Rightarrow> int" where
  "digit_val c = int (of_char c) - 48"

fun parse_digits :: "int \<Rightarrow> string \<Rightarrow> int option" where
  "parse_digits acc [] = Some acc"
| "parse_digits acc [c] =
     (if is_digit c then Some (acc * 10 + digit_val c) else None)"
| "parse_digits acc (c # d # ds) =
     (if is_digit c then parse_digits (acc * 10 + digit_val c) (d # ds)
      else if c = CHR ''_'' \<and> is_digit d then parse_digits (acc * 10 + digit_val d) ds
      else None)"

definition py_int :: "string \<Rightarrow> int option" where
  "py_int s =
     (case py_strip s of
        [] \<Rightarrow> None
      | c # cs \<Rightarrow>
          if c = CHR ''-'' then
            (case cs of
               [] \<Rightarrow> None
             | d # ds \<Rightarrow> if is_digit d then map_option uminus (parse_digits (digit_val d) ds)
                         else None)
          else if c = CHR ''+'' then
            (case cs of
               [] \<Rightarrow> None
             | d # ds \<Rightarrow> if is_digit d then parse_digits (digit_val d) ds else None)
          else if is_digit c then parse_digits (digit_val c) cs
          else None)"

definition parse_gpu_ids :: "string \<Rightarrow> int list option" where
  "parse_gpu_ids s = those (map (\<lambda>x. py_int (py_strip x)) (py_split CHR '','' s))"

subsection \<open>Validating the GPU ids\<close>

fun validate_gpu_ids :: "int \<Rightarrow> int list \<Rightarrow> error + unit" where
  "validate_gpu_ids num_gpus [] = Inr ()"
| "validate_gpu_ids num_gpus (gpu_id # rest) =
     (if gpu_id < 0 \<or> gpu_id \<ge> num_gpus then Inl (GpuNotFound gpu_id num_gpus)
      else validate_gpu_ids num_gpus rest)"

subsection \<open>\<^verbatim>\<open>allocate_memory\<close> and the allocation loop\<close>

text \<open>
  \<^verbatim>\<open>int((memory_gb * 1024 * 1024 * 1024) / 4)\<close>: Python's \<^verbatim>\<open>int\<close> truncates towards
  zero.
\<close>

definition py_trunc :: "rat \<Rightarrow> int" where
  "py_trunc q = (if q \<ge> 0 then \<lfloor>q\<rfloor> else \<lceil>q\<rceil>)"

definition new_tensor :: "rat \<Rightarrow> int \<Rightarrow> tensor" where
  "new_tensor memory_gb gpu_id =
     \<lparr>device = gpu_id, num_elements = py_trunc ((memory_gb * 1024 * 1024 * 1024) / 4)\<rparr>"

text \<open>
  The backend decides whether \<^verbatim>\<open>torch.zeros\<close> and the following \<^verbatim>\<open>tensor += 1\<close> raise a
  \<^verbatim>\<open>RuntimeError\<close>. The source catches it, prints one of two messages and returns
  \<^verbatim>\<open>None\<close>; here that is \<open>Inl\<close> with the message.
\<close>

definition allocate_memory :: "alloc_result \<Rightarrow> int \<Rightarrow> rat \<Rightarrow> error + tensor" where
  "allocate_memory r gpu_id memory_gb =
     (case r of
        AllocOk \<Rightarrow> Inr (new_tensor memory_gb gpu_id)
      | OutOfMemory \<Rightarrow> Inl (NotEnoughMemory gpu_id memory_gb)
      | OtherRuntimeError \<Rightarrow> Inl (AllocationError gpu_id))"

text \<open>
  The loop over \<^verbatim>\<open>gpu_ids\<close>: \<open>i\<close> counts the calls of \<^verbatim>\<open>allocate_memory\<close>, \<open>tensors\<close> is
  the list built so far. When a call fails the list is cleared and the script exits.
\<close>

fun allocate_loop ::
  "(nat \<Rightarrow> alloc_result) \<Rightarrow> rat \<Rightarrow> nat \<Rightarrow> tensor list \<Rightarrow> int list
     \<Rightarrow> event list \<times> (error + tensor list)" where
  "allocate_loop b memory_gb i tensors [] = ([], Inr tensors)"
| "allocate_loop b memory_gb i tensors (gpu_id # rest) =
     (case allocate_memory (b i) gpu_id memory_gb of
        Inl e \<Rightarrow> ([AllocFail gpu_id, Clear tensors], Inl e)
      | Inr t \<Rightarrow>
          (case allocate_loop b memory_gb (Suc i) (tensors @ [t]) rest of
             (es, r) \<Rightarrow> (Alloc t # es, r)))"

subsection \<open>The hold loop\<close>

datatype interrupt = Completed | Signalled | Raised

text \<open>
  \<^verbatim>\<open>for t in tensors: t += 0.0001; t -= 0.0001\<close>, from index \<open>i\<close> on, under the
  disturbance of this iteration.
\<close>

fun touch_tensors :: "disturbance option \<Rightarrow> nat \<Rightarrow> tensor list \<Rightarrow> event list \<times> interrupt" where
  "touch_tensors d i [] = ([], Completed)"
| "touch_tensors d i (t # ts) =
     (if d = Some (AddRaises i) then ([], Raised)
      else if d = Some (SignalAfterAdd i) then ([TouchAdd i], Signalled)
      else if d = Some (SubRaises i) then ([TouchAdd i], Raised)
      else if d = Some (SignalAfterSub i) then ([TouchAdd i, TouchSub i], Signalled)
      else (case touch_tensors d (Suc i) ts of
              (es, r) \<Rightarrow> (TouchAdd i # TouchSub i # es, r)))"

text \<open>
  Where the hold loop stands: still running, left through \<^verbatim>\<open>break\<close> (with the clock
  value that made the comparison true), left through the signal handler, or left by an
  exception that \<^verbatim>\<open>except KeyboardInterrupt\<close> does not catch. The handler installed for
  \<^verbatim>\<open>SIGINT\<close> replaces the one that raises \<^verbatim>\<open>KeyboardInterrupt\<close>, so that clause has
  no branch here. Clock values are taken as exact numbers.
\<close>

datatype hold_state = Running | TimedOut real | StoppedBySignal | Crashed

text \<open>One pass through the body of \<^verbatim>\<open>while True\<close>.\<close>

definition hold_iteration ::
  "int \<Rightarrow> real \<Rightarrow> tensor list \<Rightarrow> tick \<Rightarrow> event list \<times> hold_state" where
  "hold_iteration dur start tensors k =
     (if disturbance k = Some SignalInSleep then ([Sleep 10], StoppedBySignal)
      else (case touch_tensors (disturbance k) 0 tensors of
              (es, Signalled) \<Rightarrow> (Sleep 10 # es, StoppedBySignal)
            | (es, Raised) \<Rightarrow> (Sleep 10 # es, Crashed)
            | (es, Completed) \<Rightarrow>
                if disturbance k = Some SignalBeforeCheck then (Sleep 10 # es, StoppedBySignal)
                else if dur > 0 \<and> now k - start \<ge> of_int dur then (Sleep 10 # es, TimedOut (now k))
                else (Sleep 10 # es, Running)))"

fun hold_loop ::
  "int \<Rightarrow> real \<Rightarrow> tensor list \<Rightarrow> tick list \<Rightarrow> event list \<times> hold_state" where
  "hold_loop dur start tensors [] = ([], Running)"
| "hold_loop dur start tensors (k # ks) =
     (case hold_iteration dur start tensors k of
        (es, Running) \<Rightarrow>
          (case hold_loop dur start tensors ks of (es', s) \<Rightarrow> (es @ es', s))
      | (es, s) \<Rightarrow> (es, s))"

subsection \<open>\<^verbatim>\<open>main\<close>\<close>

text \<open>
  What a run has done so far: the exit status (\<open>None\<close> while the process is still in the
  hold loop), the message on standard error, the list \<^verbatim>\<open>tensors\<close>, the backend calls made,
  and the state of the hold loop (\<open>None\<close> when the loop was never entered).
\<close>

record outcome =
  exit_code :: "int option"
  err :: "error option"
  held :: "tensor list"
  trace :: "event list"
  hold :: "hold_state option"

definition exit_early :: "error \<Rightarrow> outcome" where
  "exit_early e = \<lparr>exit_code = Some 1, err = Some e, held = [], trace = [], hold = None\<rparr>"

text \<open>
  \<^verbatim>\<open>signal_handler\<close>: clear the list, empty the cache, \<^verbatim>\<open>sys.exit(0)\<close>. The result is the
  calls made, the list afterwards and the exit status.
\<close>

definition signal_handler :: "tensor list \<Rightarrow> event list \<times> tensor list \<times> int" where
  "signal_handler tensors = ([Clear tensors, EmptyCache], [], 0)"

text \<open>
  The cleanup after the loop makes the same two calls; then \<^verbatim>\<open>main\<close> returns, which is
  exit status 0.
\<close>

definition cleanup :: "tensor list \<Rightarrow> event list \<times> tensor list" where
  "cleanup tensors = ([Clear tensors, EmptyCache], [])"

text \<open>
  From \<^verbatim>\<open>start_time = time.time()\<close> to the end of \<^verbatim>\<open>main\<close>; \<open>es\<close> are the calls made
  before. An exception that leaves \<^verbatim>\<open>main\<close> ends the process with status 1, and the
  cleanup is not reached.
\<close>

definition hold_and_release :: "int \<Rightarrow> real \<Rightarrow> tick list \<Rightarrow> event list \<Rightarrow> tensor list \<Rightarrow> outcome" where
  "hold_and_release dur start ks es tensors =
     (case hold_loop dur start tensors ks of
        (hs, Running) \<Rightarrow>
          \<lparr>exit_code = None, err = None, held = tensors, trace = es @ hs, hold = Some Running\<rparr>
      | (hs, TimedOut t) \<Rightarrow>
          (case cleanup tensors of
             (rs, tensors') \<Rightarrow>
               \<lparr>exit_code = Some 0, err = None, held = tensors', trace = es @ hs @ rs,
                hold = Some (TimedOut t)\<rparr>)
      | (hs, StoppedBySignal) \<Rightarrow>
          (case signal_handler tensors of
             (rs, tensors', status) \<Rightarrow>
               \<lparr>exit_code = Some status, err = None, held = tensors', trace = es @ hs @ rs,
                hold = Some StoppedBySignal\<rparr>)
      | (hs, Crashed) \<Rightarrow>
          \<lparr>exit_code = Some 1, err = Some UncaughtRuntimeError, held = tensors, trace = es @ hs,
           hold = Some Crashed\<rparr>)"

definition run_validated :: "args \<Rightarrow> env \<Rightarrow> int list \<Rightarrow> outcome" where
  "run_validated a e gpu_ids =
     (case allocate_loop (backend e) (memory a) 0 [] gpu_ids of
        (es, Inl x) \<Rightarrow>
          \<lparr>exit_code = Some 1, err = Some x, held = [], trace = es, hold = None\<rparr>
      | (es, Inr tensors) \<Rightarrow>
          hold_and_release (duration a) (start_time e) (ticks e) es tensors)"

definition main :: "args \<Rightarrow> env \<Rightarrow> outcome" where
  "main a e =
     (case check_dependencies (deps e) of
        Inl x \<Rightarrow> exit_early x
      | Inr _ \<Rightarrow>
          (case parse_gpu_ids (gpus a) of
             None \<Rightarrow> exit_early InvalidGpuIds
           | Some gpu_ids \<Rightarrow>
               (case validate_gpu_ids (device_count e) gpu_ids of
                  Inl x \<Rightarrow> exit_early x
                | Inr _ \<Rightarrow> run_validated a e gpu_ids)))"

subsection \<open>Notions used in the statements\<close>

text \<open>
  The tensors a trace has allocated, and the tensors it has dropped from the list, both
  in the order of the calls. The contents of a cleared list are given in list order;
  nothing is said about the order in which the interpreter frees them.
\<close>

fun acquire_calls :: "event list \<Rightarrow> tensor list" where
  "acquire_calls [] = []"
| "acquire_calls (Alloc t # es) = t # acquire_calls es"
| "acquire_calls (e # es) = acquire_calls es"

fun released_by :: "event list \<Rightarrow> tensor list" where
  "released_by [] = []"
| "released_by (Clear ts # es) = ts @ released_by es"
| "released_by (e # es) = released_by es"

text \<open>The calls of an undisturbed pass over the tensors, from index \<open>i\<close> on.\<close>

fun touch_events :: "nat \<Rightarrow> tensor list \<Rightarrow> event list" where
  "touch_events i [] = []"
| "touch_events i (t # ts) = TouchAdd i # TouchSub i # touch_events (Suc i) ts"

text \<open>
  Whether a disturbance is a signal that reaches the handler in an iteration over \<open>n\<close>
  tensors, and the touch calls made in that iteration before the handler runs.
\<close>

fun signal_served :: "disturbance \<Rightarrow> nat \<Rightarrow> bool" where
  "signal_served SignalInSleep n = True"
| "signal_served (SignalAfterAdd i) n = (i < n)"
| "signal_served (SignalAfterSub i) n = (i < n)"
| "signal_served SignalBeforeCheck n = True"
| "signal_served (AddRaises i) n = False"
| "signal_served (SubRaises i) n = False"

fun touches_before_signal :: "disturbance \<Rightarrow> tensor list \<Rightarrow> event list" where
  "touches_before_signal SignalInSleep ts = []"
| "touches_before_signal (SignalAfterAdd i) ts = touch_events 0 (take i ts) @ [TouchAdd i]"
| "touches_before_signal (SignalAfterSub i) ts =
     touch_events 0 (take i ts) @ [TouchAdd i, TouchSub i]"
| "touches_before_signal SignalBeforeCheck ts = touch_events 0 ts"
| "touches_before_signal (AddRaises i) ts = []"
| "touches_before_signal (SubRaises i) ts = []"

text \<open>
  A trace in which no touch is cut in two: every \<^verbatim>\<open>t += 0.0001\<close> is followed at once by
  the \<^verbatim>\<open>t -= 0.0001\<close> on the same tensor.
\<close>

fun touches_whole :: "event list \<Rightarrow> bool" where
  "touches_whole [] = True"
| "touches_whole [TouchAdd i] = False"
| "touches_whole (TouchAdd i # e # es) = (e = TouchSub i \<and> touches_whole es)"
| "touches_whole (e # es) = touches_whole es"

text \<open>
  A stop at the top of an iteration: the calls made inside the hold loop (sleeps and
  touches) are those of complete iterations over the tensors \<open>ts\<close>, each one sleep
  followed by a whole pass of touches.
\<close>

fun loop_call :: "event \<Rightarrow> bool" where
  "loop_call (Sleep n) = True"
| "loop_call (TouchAdd i) = True"
| "loop_call (TouchSub i) = True"
| "loop_call e = False"

definition whole_iterations :: "tensor list \<Rightarrow> event list \<Rightarrow> bool" where
  "whole_iterations ts es =
     (let body = Sleep 10 # touch_events 0 ts;
          calls = filter loop_call es
      in calls = concat (replicate (length calls div length body) body))"

section \<open>Properties\<close>

subsection \<open>The two backends\<close>

lemma backend_ok_simp [simp]: "backend_ok i = AllocOk"
  by (simp add: backend_ok_def)

lemma backend_full_at_simp [simp]:
  "backend_full_at k i = (if i = k then OutOfMemory else AllocOk)"
  by (simp add: backend_full_at_def)

subsection \<open>Traces\<close>

lemma acquire_calls_append: "acquire_calls (xs @ ys) = acquire_calls xs @ acquire_calls ys"
  by (induction xs rule: acquire_calls.induct) simp_all

lemma released_by_append: "released_by (xs @ ys) = released_by xs @ released_by ys"
  by (induction xs rule: released_by.induct) simp_all

lemma acquire_calls_map_Alloc: "acquire_calls (map Alloc ts) = ts"
  by (induction ts) simp_all

lemma released_by_map_Alloc: "released_by (map Alloc ts) = []"
  by (induction ts) simp_all

lemma acquire_calls_map_Alloc_comp: "acquire_calls (map (Alloc \<circ> f) xs) = map f xs"
  by (induction xs) simp_all

lemma released_by_map_Alloc_comp: "released_by (map (Alloc \<circ> f) xs) = []"
  by (induction xs) simp_all

subsection \<open>Validation and allocation\<close>

lemma validate_gpu_ids_find:
  "validate_gpu_ids n ids =
     (case find (\<lambda>g. g < 0 \<or> n \<le> g) ids of
        None \<Rightarrow> Inr ()
      | Some g \<Rightarrow> Inl (GpuNotFound g n))"
  by (induction ids) auto

lemma allocate_memory_ok: "allocate_memory AllocOk g m = Inr (new_tensor m g)"
  by (simp add: allocate_memory_def)

lemma allocate_memory_fails: "r \<noteq> AllocOk \<Longrightarrow> \<exists>x. allocate_memory r g m = Inl x"
  by (cases r) (simp_all add: allocate_memory_def)

lemma allocate_memory_Inr: "allocate_memory r g m = Inr t \<Longrightarrow> r = AllocOk \<and> t = new_tensor m g"
  by (cases r) (simp_all add: allocate_memory_def)

text \<open>When the call with index \<open>k\<close> is the first to fail, the list built so far is cleared.\<close>

lemma allocate_loop_fails_at:
  assumes "k < length ids" and "\<forall>j<k. b (i + j) = AllocOk" and "b (i + k) \<noteq> AllocOk"
  shows "\<exists>x. allocate_loop b m i acc ids =
           (map Alloc (map (new_tensor m) (take k ids)) @
              [AllocFail (ids ! k), Clear (acc @ map (new_tensor m) (take k ids))], Inl x)"
  using assms
proof (induction ids arbitrary: k i acc)
  case Nil
  then show ?case by simp
next
  case (Cons g rest)
  show ?case
  proof (cases k)
    case 0
    with Cons.prems obtain x where "allocate_memory (b i) g m = Inl x"
      using allocate_memory_fails [of "b i" g m] by auto
    with 0 show ?thesis by simp
  next
    case (Suc k')
    from Cons.prems Suc have ok: "b i = AllocOk" by auto
    have "k' < length rest" using Cons.prems Suc by simp
    moreover have "\<forall>j<k'. b (Suc i + j) = AllocOk"
      using Cons.prems(2) Suc by (metis Suc_less_eq add_Suc_shift)
    moreover have "b (Suc i + k') \<noteq> AllocOk" using Cons.prems(3) Suc by simp
    ultimately obtain x where
      "allocate_loop b m (Suc i) (acc @ [new_tensor m g]) rest =
         (map Alloc (map (new_tensor m) (take k' rest)) @
            [AllocFail (rest ! k'),
             Clear ((acc @ [new_tensor m g]) @ map (new_tensor m) (take k' rest))], Inl x)"
      using Cons.IH [of k' "Suc i" "acc @ [new_tensor m g]"] by blast
    with ok Suc show ?thesis by (simp add: allocate_memory_ok)
  qed
qed

lemma allocate_loop_all_ok:
  "\<forall>j<length ids. b (i + j) = AllocOk \<Longrightarrow>
   allocate_loop b m i acc ids =
     (map Alloc (map (new_tensor m) ids), Inr (acc @ map (new_tensor m) ids))"
proof (induction ids arbitrary: i acc)
  case Nil
  then show ?case by simp
next
  case (Cons g rest)
  from Cons.prems have ok: "b i = AllocOk" by auto
  have "\<forall>j<length rest. b (Suc i + j) = AllocOk"
    using Cons.prems by (metis Suc_less_eq add_Suc_shift length_Cons)
  from Cons.IH [OF this] ok show ?case by (simp add: allocate_memory_ok)
qed

text \<open>Every result of the allocation loop has one of two shapes.\<close>

lemma allocate_loop_shape:
  "allocate_loop b m i acc ids = (es, r) \<Longrightarrow>
     (case r of
        Inr ts \<Rightarrow> ts = acc @ map (new_tensor m) ids \<and> es = map Alloc (map (new_tensor m) ids)
      | Inl x \<Rightarrow> \<exists>k<length ids.
          es = map Alloc (map (new_tensor m) (take k ids)) @
                 [AllocFail (ids ! k), Clear (acc @ map (new_tensor m) (take k ids))])"
proof (induction ids arbitrary: i acc es r)
  case Nil
  then show ?case by auto
next
  case (Cons g rest)
  show ?case
  proof (cases "allocate_memory (b i) g m")
    case (Inl x)
    with Cons.prems have "es = [AllocFail g, Clear acc]" "r = Inl x" by auto
    then show ?thesis by (auto intro: exI [of _ 0])
  next
    case (Inr t)
    then have t: "t = new_tensor m g"
      using allocate_memory_Inr by blast
    obtain es' r' where rec: "allocate_loop b m (Suc i) (acc @ [t]) rest = (es', r')"
      by (cases "allocate_loop b m (Suc i) (acc @ [t]) rest") auto
    with Cons.prems Inr have es: "es = Alloc t # es'" and r: "r = r'" by auto
    show ?thesis
    proof (cases r')
      case (Inl x)
      with Cons.IH [OF rec] obtain k where "k < length rest"
        "es' = map Alloc (map (new_tensor m) (take k rest)) @
                 [AllocFail (rest ! k), Clear ((acc @ [t]) @ map (new_tensor m) (take k rest))]"
        by auto
      then show ?thesis using es r Inl t by (auto intro!: exI [of _ "Suc k"])
    next
      case (Inr ts)
      with Cons.IH [OF rec] show ?thesis using es r t by auto
    qed
  qed
qed

subsection \<open>The hold loop\<close>

lemma touch_tensors_None: "touch_tensors None i ts = (touch_events i ts, Completed)"
  by (induction ts arbitrary: i) simp_all

lemma touch_tensors_other_signal:
  "d = Some SignalInSleep \<or> d = Some SignalBeforeCheck \<Longrightarrow>
   touch_tensors d i ts = (touch_events i ts, Completed)"
  by (induction ts arbitrary: i) auto

lemma touch_tensors_SignalAfterAdd:
  "i \<le> j \<Longrightarrow> j < i + length ts \<Longrightarrow>
   touch_tensors (Some (SignalAfterAdd j)) i ts =
     (touch_events i (take (j - i) ts) @ [TouchAdd j], Signalled)"
proof (induction ts arbitrary: i)
  case Nil
  then show ?case by simp
next
  case (Cons t ts)
  show ?case
  proof (cases "j = i")
    case True
    then show ?thesis by simp
  next
    case False
    with Cons.prems have le: "Suc i \<le> j" and lt: "j < Suc i + length ts" by simp_all
    from le have "j - i = Suc (j - Suc i)" by simp
    with Cons.IH [OF le lt] False show ?thesis by simp
  qed
qed

lemma touch_tensors_SignalAfterSub:
  "i \<le> j \<Longrightarrow> j < i + length ts \<Longrightarrow>
   touch_tensors (Some (SignalAfterSub j)) i ts =
     (touch_events i (take (j - i) ts) @ [TouchAdd j, TouchSub j], Signalled)"
proof (induction ts arbitrary: i)
  case Nil
  then show ?case by simp
next
  case (Cons t ts)
  show ?case
  proof (cases "j = i")
    case True
    then show ?thesis by simp
  next
    case False
    with Cons.prems have le: "Suc i \<le> j" and lt: "j < Suc i + length ts" by simp_all
    from le have "j - i = Suc (j - Suc i)" by simp
    with Cons.IH [OF le lt] False show ?thesis by simp
  qed
qed

lemma touch_tensors_quiet_trace:
  "acquire_calls (fst (touch_tensors d i ts)) = [] \<and>
   released_by (fst (touch_tensors d i ts)) = []"
proof (induction ts arbitrary: i)
  case Nil
  then show ?case by simp
next
  case (Cons t ts)
  obtain es r where rec: "touch_tensors d (Suc i) ts = (es, r)"
    by (cases "touch_tensors d (Suc i) ts") auto
  with Cons.IH [of "Suc i"] have "acquire_calls es = []" "released_by es = []"
    by simp_all
  with rec show ?case by simp
qed

lemma hold_iteration_quiet:
  "disturbance k = None \<Longrightarrow>
   hold_iteration dur start ts k =
     (Sleep 10 # touch_events 0 ts,
      if dur > 0 \<and> now k - start \<ge> of_int dur then TimedOut (now k) else Running)"
  by (simp add: hold_iteration_def touch_tensors_None)

lemma hold_iteration_signal:
  assumes "disturbance k = Some d" and "signal_served d (length ts)"
  shows "hold_iteration dur start ts k = (Sleep 10 # touches_before_signal d ts, StoppedBySignal)"
proof (cases d)
  case SignalInSleep
  with assms show ?thesis by (simp add: hold_iteration_def)
next
  case (SignalAfterAdd j)
  with assms have "j < length ts" by simp
  then show ?thesis
    using assms(1) SignalAfterAdd touch_tensors_SignalAfterAdd [of 0 j ts]
    by (simp add: hold_iteration_def)
next
  case (SignalAfterSub j)
  with assms have "j < length ts" by simp
  then show ?thesis
    using assms(1) SignalAfterSub touch_tensors_SignalAfterSub [of 0 j ts]
    by (simp add: hold_iteration_def)
next
  case SignalBeforeCheck
  with assms show ?thesis
    by (simp add: hold_iteration_def touch_tensors_other_signal)
next
  case (AddRaises j)
  with assms show ?thesis by simp
next
  case (SubRaises j)
  with assms show ?thesis by simp
qed

lemma hold_iteration_TimedOut:
  "snd (hold_iteration dur start ts k) = TimedOut t \<Longrightarrow>
     dur > 0 \<and> of_int dur \<le> t - start \<and> t = now k"
  by (auto simp: hold_iteration_def split: if_splits prod.splits interrupt.splits)

lemma hold_iteration_nonpositive:
  "dur \<le> 0 \<Longrightarrow> hold_iteration dur start ts k = hold_iteration 0 start ts k"
  by (auto simp: hold_iteration_def split: prod.splits interrupt.splits)

lemma hold_iteration_quiet_trace:
  "acquire_calls (fst (hold_iteration dur start ts k)) = [] \<and>
   released_by (fst (hold_iteration dur start ts k)) = []"
  using touch_tensors_quiet_trace [of "disturbance k" 0 ts]
  by (auto simp: hold_iteration_def split: prod.splits interrupt.splits)

lemma hold_loop_TimedOut:
  "snd (hold_loop dur start ts ks) = TimedOut t \<Longrightarrow>
     dur > 0 \<and> of_int dur \<le> t - start \<and> (\<exists>k\<in>set ks. now k = t)"
proof (induction ks)
  case Nil
  then show ?case by simp
next
  case (Cons k ks)
  obtain es s where it: "hold_iteration dur start ts k = (es, s)"
    by (cases "hold_iteration dur start ts k") auto
  show ?case
  proof (cases "s = Running")
    case True
    with it Cons.prems have "snd (hold_loop dur start ts ks) = TimedOut t"
      by (auto split: prod.splits)
    with Cons.IH show ?thesis by auto
  next
    case False
    with it Cons.prems have "s = TimedOut t"
      by (cases s) (auto split: prod.splits)
    with it hold_iteration_TimedOut [of dur start ts k t] show ?thesis by auto
  qed
qed

lemma hold_loop_quiet:
  "\<forall>k\<in>set ks. disturbance k = None \<Longrightarrow>
   snd (hold_loop dur start ts ks) =
     (if dur > 0 then
        (case find (\<lambda>k. now k - start \<ge> of_int dur) ks of
           None \<Rightarrow> Running
         | Some k \<Rightarrow> TimedOut (now k))
      else Running)"
  by (induction ks) (auto simp: hold_iteration_quiet split: prod.splits)

lemma hold_loop_nonpositive:
  "dur \<le> 0 \<Longrightarrow> hold_loop dur start ts ks = hold_loop 0 start ts ks"
proof (induction ks)
  case Nil
  then show ?case by simp
next
  case (Cons k ks)
  then show ?case
    using hold_iteration_nonpositive [of dur start ts k] by simp
qed

lemma hold_loop_append_Running:
  "snd (hold_loop dur start ts pre) = Running \<Longrightarrow>
   hold_loop dur start ts (pre @ ks) =
     (fst (hold_loop dur start ts pre) @ fst (hold_loop dur start ts ks),
      snd (hold_loop dur start ts ks))"
proof (induction pre)
  case Nil
  then show ?case by simp
next
  case (Cons k pre)
  obtain es s where it: "hold_iteration dur start ts k = (es, s)"
    by (cases "hold_iteration dur start ts k") auto
  with Cons.prems have s: "s = Running"
    by (cases s) (auto split: prod.splits)
  with it Cons.prems have "snd (hold_loop dur start ts pre) = Running"
    by (auto split: prod.splits)
  with Cons.IH it s show ?case by (auto split: prod.splits)
qed

lemma hold_loop_quiet_trace:
  "acquire_calls (fst (hold_loop dur start ts ks)) = [] \<and>
   released_by (fst (hold_loop dur start ts ks)) = []"
proof (induction ks)
  case Nil
  then show ?case by simp
next
  case (Cons k ks)
  obtain es s where it: "hold_iteration dur start ts k = (es, s)"
    by (cases "hold_iteration dur start ts k") auto
  with hold_iteration_quiet_trace [of dur start ts k]
  have "acquire_calls es = []" "released_by es = []" by simp_all
  with Cons.IH it show ?case
    by (cases s) (auto simp: acquire_calls_append released_by_append split: prod.splits)
qed

text \<open>What made the loop stop, when it was left by the handler or by an exception.\<close>

lemma touch_tensors_Signalled_cause:
  "touch_tensors d i ts = (es, Signalled) \<Longrightarrow>
     \<exists>j. d = Some (SignalAfterAdd j) \<or> d = Some (SignalAfterSub j)"
proof (induction ts arbitrary: i es)
  case Nil
  then show ?case by simp
next
  case (Cons t ts)
  obtain es' r where rec: "touch_tensors d (Suc i) ts = (es', r)"
    by (cases "touch_tensors d (Suc i) ts") auto
  show ?case
  proof (cases "d = Some (AddRaises i) \<or> d = Some (SignalAfterAdd i) \<or>
                d = Some (SubRaises i) \<or> d = Some (SignalAfterSub i)")
    case True
    with Cons.prems show ?thesis by (auto split: if_splits)
  next
    case False
    with Cons.prems rec have "r = Signalled" by simp
    with rec Cons.IH show ?thesis by blast
  qed
qed

lemma touch_tensors_Raised_cause:
  "touch_tensors d i ts = (es, Raised) \<Longrightarrow>
     \<exists>j. d = Some (AddRaises j) \<or> d = Some (SubRaises j)"
proof (induction ts arbitrary: i es)
  case Nil
  then show ?case by simp
next
  case (Cons t ts)
  obtain es' r where rec: "touch_tensors d (Suc i) ts = (es', r)"
    by (cases "touch_tensors d (Suc i) ts") auto
  show ?case
  proof (cases "d = Some (AddRaises i) \<or> d = Some (SignalAfterAdd i) \<or>
                d = Some (SubRaises i) \<or> d = Some (SignalAfterSub i)")
    case True
    with Cons.prems show ?thesis by (auto split: if_splits)
  next
    case False
    with Cons.prems rec have "r = Raised" by simp
    with rec Cons.IH show ?thesis by blast
  qed
qed

lemma hold_iteration_StoppedBySignal_cause:
  assumes "snd (hold_iteration dur start ts k) = StoppedBySignal"
  shows "\<exists>d n. disturbance k = Some d \<and> signal_served d n"
proof (cases "disturbance k = Some SignalInSleep \<or> disturbance k = Some SignalBeforeCheck")
  case True
  then show ?thesis by (auto intro: exI [of _ 0])
next
  case False
  obtain es r where tt: "touch_tensors (disturbance k) 0 ts = (es, r)"
    by (cases "touch_tensors (disturbance k) 0 ts") auto
  with assms False have "r = Signalled"
    by (cases r) (auto simp: hold_iteration_def split: if_splits)
  with tt obtain j where
    "disturbance k = Some (SignalAfterAdd j) \<or> disturbance k = Some (SignalAfterSub j)"
    using touch_tensors_Signalled_cause by blast
  then have "signal_served (SignalAfterAdd j) (Suc j) \<and> signal_served (SignalAfterSub j) (Suc j)"
    by simp
  with \<open>disturbance k = Some (SignalAfterAdd j) \<or> disturbance k = Some (SignalAfterSub j)\<close>
  show ?thesis by blast
qed

lemma hold_iteration_Crashed_cause:
  assumes "snd (hold_iteration dur start ts k) = Crashed"
  shows "\<exists>j. disturbance k = Some (AddRaises j) \<or> disturbance k = Some (SubRaises j)"
proof -
  obtain es r where tt: "touch_tensors (disturbance k) 0 ts = (es, r)"
    by (cases "touch_tensors (disturbance k) 0 ts") auto
  with assms have "r = Raised"
    by (cases r) (auto simp: hold_iteration_def split: if_splits)
  with tt show ?thesis using touch_tensors_Raised_cause by blast
qed

lemma hold_loop_cause:
  "(snd (hold_loop dur start ts ks) = StoppedBySignal \<longrightarrow>
      (\<exists>k\<in>set ks. \<exists>d n. disturbance k = Some d \<and> signal_served d n)) \<and>
   (snd (hold_loop dur start ts ks) = Crashed \<longrightarrow>
      (\<exists>k\<in>set ks. \<exists>j. disturbance k = Some (AddRaises j) \<or> disturbance k = Some (SubRaises j)))"
proof (induction ks)
  case Nil
  then show ?case by simp
next
  case (Cons k ks)
  obtain es s where it: "hold_iteration dur start ts k = (es, s)"
    by (cases "hold_iteration dur start ts k") auto
  show ?case
  proof (cases "s = Running")
    case True
    with it have "snd (hold_loop dur start ts (k # ks)) = snd (hold_loop dur start ts ks)"
      by (simp split: prod.splits)
    with Cons.IH show ?thesis by auto
  next
    case False
    with it have eq: "snd (hold_loop dur start ts (k # ks)) = s"
      by (cases s) simp_all
    from it have "snd (hold_iteration dur start ts k) = s" by simp
    with eq hold_iteration_StoppedBySignal_cause [of dur start ts k]
      hold_iteration_Crashed_cause [of dur start ts k]
    show ?thesis by auto
  qed
qed

subsection \<open>The ways through \<^verbatim>\<open>main\<close>\<close>

lemma main_reaches_hold:
  assumes "deps e = TorchWithCuda"
      and "parse_gpu_ids (gpus a) = Some ids"
      and "validate_gpu_ids (device_count e) ids = Inr ()"
      and "\<forall>j<length ids. backend e j = AllocOk"
  shows "main a e =
           hold_and_release (duration a) (start_time e) (ticks e)
             (map Alloc (map (new_tensor (memory a)) ids)) (map (new_tensor (memory a)) ids)"
  using assms allocate_loop_all_ok [of ids "backend e" 0 "memory a" "[]"]
  by (simp add: main_def check_dependencies_def run_validated_def)

lemma main_allocation_fails:
  assumes "deps e = TorchWithCuda"
      and "parse_gpu_ids (gpus a) = Some ids"
      and "validate_gpu_ids (device_count e) ids = Inr ()"
      and "allocate_loop (backend e) (memory a) 0 [] ids = (es, Inl x)"
  shows "main a e = \<lparr>exit_code = Some 1, err = Some x, held = [], trace = es, hold = None\<rparr>"
  using assms by (simp add: main_def check_dependencies_def run_validated_def)

lemma hold_and_release_hold:
  "hold (hold_and_release dur start ks es ts) = Some (snd (hold_loop dur start ts ks))"
  by (cases "hold_loop dur start ts ks"; cases "snd (hold_loop dur start ts ks)")
     (simp_all add: hold_and_release_def signal_handler_def cleanup_def)

lemma hold_and_release_exit_code:
  "exit_code (hold_and_release dur start ks es ts) =
     (case snd (hold_loop dur start ts ks) of
        Running \<Rightarrow> None
      | TimedOut t \<Rightarrow> Some 0
      | StoppedBySignal \<Rightarrow> Some 0
      | Crashed \<Rightarrow> Some 1)"
  by (cases "hold_loop dur start ts ks"; cases "snd (hold_loop dur start ts ks)")
     (simp_all add: hold_and_release_def signal_handler_def cleanup_def)

lemma hold_and_release_held:
  "held (hold_and_release dur start ks es ts) =
     (case snd (hold_loop dur start ts ks) of
        Running \<Rightarrow> ts
      | TimedOut t \<Rightarrow> []
      | StoppedBySignal \<Rightarrow> []
      | Crashed \<Rightarrow> ts)"
  by (cases "hold_loop dur start ts ks"; cases "snd (hold_loop dur start ts ks)")
     (simp_all add: hold_and_release_def signal_handler_def cleanup_def)

lemma hold_and_release_trace:
  "trace (hold_and_release dur start ks es ts) =
     es @ fst (hold_loop dur start ts ks) @
     (case snd (hold_loop dur start ts ks) of
        Running \<Rightarrow> []
      | TimedOut t \<Rightarrow> [Clear ts, EmptyCache]
      | StoppedBySignal \<Rightarrow> [Clear ts, EmptyCache]
      | Crashed \<Rightarrow> [])"
  by (cases "hold_loop dur start ts ks"; cases "snd (hold_loop dur start ts ks)")
     (simp_all add: hold_and_release_def signal_handler_def cleanup_def)

text \<open>
  A run ends before any allocation, ends in a failed allocation, or enters the hold loop
  with one tensor per requested id.
\<close>

lemma main_cases:
  obtains (early) x where "main a e = exit_early x"
  | (alloc) ids es x where "deps e = TorchWithCuda" "parse_gpu_ids (gpus a) = Some ids"
      "validate_gpu_ids (device_count e) ids = Inr ()"
      "allocate_loop (backend e) (memory a) 0 [] ids = (es, Inl x)"
      "main a e = \<lparr>exit_code = Some 1, err = Some x, held = [], trace = es, hold = None\<rparr>"
  | (hold) ids where "deps e = TorchWithCuda" "parse_gpu_ids (gpus a) = Some ids"
      "validate_gpu_ids (device_count e) ids = Inr ()"
      "allocate_loop (backend e) (memory a) 0 [] ids =
         (map Alloc (map (new_tensor (memory a)) ids), Inr (map (new_tensor (memory a)) ids))"
      "main a e =
         hold_and_release (duration a) (start_time e) (ticks e)
           (map Alloc (map (new_tensor (memory a)) ids)) (map (new_tensor (memory a)) ids)"
proof (cases "deps e = TorchWithCuda")
  case False
  then have "\<exists>x. main a e = exit_early x"
    by (cases "deps e") (auto simp: main_def check_dependencies_def)
  then show ?thesis using early by blast
next
  case dep: True
  show ?thesis
  proof (cases "parse_gpu_ids (gpus a)")
    case None
    with dep have "main a e = exit_early InvalidGpuIds"
      by (simp add: main_def check_dependencies_def)
    then show ?thesis using early by blast
  next
    case (Some ids)
    show ?thesis
    proof (cases "validate_gpu_ids (device_count e) ids")
      case (Inl x)
      with dep Some have "main a e = exit_early x"
        by (simp add: main_def check_dependencies_def)
      then show ?thesis using early by blast
    next
      case (Inr u)
      obtain es r where al: "allocate_loop (backend e) (memory a) 0 [] ids = (es, r)"
        by (cases "allocate_loop (backend e) (memory a) 0 [] ids") auto
      show ?thesis
      proof (cases r)
        case (Inl x)
        with dep Some Inr al show ?thesis
          using alloc [of ids es x] by (simp add: main_def check_dependencies_def run_validated_def)
      next
        case r: (Inr ts)
        with allocate_loop_shape [OF al]
        have "ts = map (new_tensor (memory a)) ids" "es = map Alloc (map (new_tensor (memory a)) ids)"
          by simp_all
        with dep Some Inr al r show ?thesis
          using hold [of ids] by (simp add: main_def check_dependencies_def run_validated_def)
      qed
    qed
  qed
qed

lemma hold_and_release_released:
  "snd (hold_loop dur start ts ks) = StoppedBySignal \<or>
   snd (hold_loop dur start ts ks) = TimedOut t \<Longrightarrow>
   acquire_calls (trace (hold_and_release dur start ks (map Alloc ts) ts)) = ts \<and>
   released_by (trace (hold_and_release dur start ks (map Alloc ts) ts)) = ts \<and>
   trace (hold_and_release dur start ks (map Alloc ts) ts) =
     map Alloc ts @ fst (hold_loop dur start ts ks) @ [Clear ts, EmptyCache]"
  using hold_loop_quiet_trace [of dur start ts ks]
  by (auto simp: hold_and_release_trace acquire_calls_append released_by_append
        acquire_calls_map_Alloc released_by_map_Alloc)

lemma exit_early_fields:
  "exit_code (exit_early x) = Some 1" "hold (exit_early x) = None"
  "held (exit_early x) = []" "trace (exit_early x) = []"
  by (simp_all add: exit_early_def)

lemma main_exit_zero:
  "exit_code (main a e) = Some 0 \<longleftrightarrow>
     hold (main a e) = Some StoppedBySignal \<or> (\<exists>t. hold (main a e) = Some (TimedOut t))"
proof (cases rule: main_cases [of a e])
  case (early x)
  then show ?thesis by (simp add: exit_early_fields)
next
  case (alloc ids es x)
  then show ?thesis by simp
next
  case (hold ids)
  show ?thesis
    unfolding hold(5) hold_and_release_exit_code hold_and_release_hold
    by (cases "snd (hold_loop (duration a) (start_time e)
                 (map (new_tensor (memory a)) ids) (ticks e))") simp_all
qed

lemma main_exit_zero_released:
  assumes "exit_code (main a e) = Some 0"
  shows "(\<exists>ids. parse_gpu_ids (gpus a) = Some ids \<and>
            acquire_calls (trace (main a e)) = map (new_tensor (memory a)) ids) \<and>
         released_by (trace (main a e)) = acquire_calls (trace (main a e)) \<and>
         held (main a e) = []"
proof (cases rule: main_cases [of a e])
  case (early x)
  with assms show ?thesis by (simp add: exit_early_fields)
next
  case (alloc ids es x)
  with assms show ?thesis by simp
next
  case (hold ids)
  let ?ts = "map (new_tensor (memory a)) ids"
  let ?s = "snd (hold_loop (duration a) (start_time e) ?ts (ticks e))"
  from assms have "?s = StoppedBySignal \<or> (\<exists>t. ?s = TimedOut t)"
    unfolding hold(5) hold_and_release_exit_code by (cases ?s) simp_all
  then obtain t where st: "?s = StoppedBySignal \<or> ?s = TimedOut t" by blast
  from hold_and_release_released [OF st]
  have tr: "acquire_calls (trace (main a e)) = ?ts" "released_by (trace (main a e)) = ?ts"
    unfolding hold(5) by blast+
  have "held (main a e) = []"
    unfolding hold(5) hold_and_release_held using st by auto
  with tr hold(2) show ?thesis by simp
qed

lemma main_early_failures:
  "parse_gpu_ids (gpus a) = None \<Longrightarrow>
     exit_code (main a e) = Some 1 \<and> hold (main a e) = None"
  "parse_gpu_ids (gpus a) = Some ids \<Longrightarrow> validate_gpu_ids (device_count e) ids = Inl x \<Longrightarrow>
     exit_code (main a e) = Some 1 \<and> hold (main a e) = None"
  "parse_gpu_ids (gpus a) = Some ids \<Longrightarrow>
   allocate_loop (backend e) (memory a) 0 [] ids = (es, Inl x) \<Longrightarrow>
     exit_code (main a e) = Some 1 \<and> hold (main a e) = None"
  by (cases "deps e"; cases "validate_gpu_ids (device_count e) ids";
      simp add: main_def check_dependencies_def exit_early_fields run_validated_def)+

lemma main_nonpositive_duration:
  assumes "duration a \<le> 0"
  shows "main a e = main (a\<lparr>duration := 0\<rparr>) e"
proof -
  have "run_validated a e ids = run_validated (a\<lparr>duration := 0\<rparr>) e ids" for ids
    by (simp add: run_validated_def hold_and_release_def hold_loop_nonpositive [OF assms]
          split: prod.splits sum.splits)
  then show ?thesis
    by (simp add: main_def split: sum.splits option.splits)
qed

section \<open>The claims\<close>

subsection \<open>C1: a failed allocation rolls back\<close>

text \<open>
  Claim C1. For every request list, if the allocation with index \<open>k\<close> is the first that
  fails, the tensors with indices \<open>0..k-1\<close> are dropped by \<^verbatim>\<open>tensors.clear()\<close> before the
  script exits: the trace is the \<open>k\<close> successful allocations, the failed one, and one clear
  of exactly those \<open>k\<close> tensors. So as many tensors are released as were acquired, the list
  is empty afterwards, the hold loop is not entered, and the exit status is 1.
\<close>

theorem failed_allocation_rolls_back:
  assumes "deps e = TorchWithCuda"
      and "parse_gpu_ids (gpus a) = Some gpu_ids"
      and "validate_gpu_ids (device_count e) gpu_ids = Inr ()"
      and "k < length gpu_ids"
      and "\<forall>j<k. backend e j = AllocOk"
      and "backend e k \<noteq> AllocOk"
  shows "exit_code (main a e) = Some 1 \<and>
         held (main a e) = [] \<and>
         hold (main a e) = None \<and>
         trace (main a e) =
           map Alloc (map (new_tensor (memory a)) (take k gpu_ids)) @
           [AllocFail (gpu_ids ! k), Clear (map (new_tensor (memory a)) (take k gpu_ids))] \<and>
         acquire_calls (trace (main a e)) = map (new_tensor (memory a)) (take k gpu_ids) \<and>
         released_by (trace (main a e)) = acquire_calls (trace (main a e)) \<and>
         length (acquire_calls (trace (main a e))) = k \<and>
         length (released_by (trace (main a e))) = k"
proof -
  let ?ts = "map (new_tensor (memory a)) (take k gpu_ids)"
  from assms(4-6) obtain x where
    al: "allocate_loop (backend e) (memory a) 0 [] gpu_ids =
           (map Alloc ?ts @ [AllocFail (gpu_ids ! k), Clear ([] @ ?ts)], Inl x)"
    using allocate_loop_fails_at [of k gpu_ids "backend e" 0 "memory a" "[]"] by auto
  then have m: "main a e =
      \<lparr>exit_code = Some 1, err = Some x, held = [],
       trace = map Alloc ?ts @ [AllocFail (gpu_ids ! k), Clear ?ts], hold = None\<rparr>"
    using main_allocation_fails [OF assms(1-3)] by simp
  have "length ?ts = k" using assms(4) by simp
  with m show ?thesis
    by (simp add: acquire_calls_append released_by_append acquire_calls_map_Alloc_comp
          released_by_map_Alloc_comp)
qed

text \<open>Three ids, the third allocation runs out of memory: two tensors acquired, two dropped.\<close>

theorem failed_allocation_rolls_back_witness:
  "deps \<lparr>deps = TorchWithCuda, device_count = 4,
         backend = backend_full_at 2, start_time = 0, ticks = []\<rparr>
     = TorchWithCuda \<and>
   parse_gpu_ids (gpus \<lparr>gpus = ''0,1,2'', memory = 1, duration = 0\<rparr>) = Some [0, 1, 2] \<and>
   validate_gpu_ids 4 [0, 1, 2] = Inr () \<and>
   (2::nat) < length [0::int, 1, 2] \<and>
   backend \<lparr>deps = TorchWithCuda, device_count = 4,
         backend = backend_full_at 2, start_time = 0, ticks = []\<rparr> 0
     = AllocOk \<and>
   backend \<lparr>deps = TorchWithCuda, device_count = 4,
         backend = backend_full_at 2, start_time = 0, ticks = []\<rparr> 1
     = AllocOk \<and>
   backend \<lparr>deps = TorchWithCuda, device_count = 4,
         backend = backend_full_at 2, start_time = 0, ticks = []\<rparr> 2
     \<noteq> AllocOk \<and>
   trace (main \<lparr>gpus = ''0,1,2'', memory = 1, duration = 0\<rparr>
            \<lparr>deps = TorchWithCuda, device_count = 4,
             backend = backend_full_at 2,
             start_time = 0, ticks = []\<rparr>) =
     [Alloc (new_tensor 1 0), Alloc (new_tensor 1 1), AllocFail 2,
      Clear [new_tensor 1 0, new_tensor 1 1]] \<and>
   held (main \<lparr>gpus = ''0,1,2'', memory = 1, duration = 0\<rparr>
            \<lparr>deps = TorchWithCuda, device_count = 4,
             backend = backend_full_at 2,
             start_time = 0, ticks = []\<rparr>) = [] \<and>
   exit_code (main \<lparr>gpus = ''0,1,2'', memory = 1, duration = 0\<rparr>
            \<lparr>deps = TorchWithCuda, device_count = 4,
             backend = backend_full_at 2,
             start_time = 0, ticks = []\<rparr>) = Some 1"
proof -
  have p: "parse_gpu_ids ''0,1,2'' = Some [0, 1, 2]"
    by code_simp
  show ?thesis
    using failed_allocation_rolls_back
      [of "\<lparr>deps = TorchWithCuda, device_count = 4,
            backend = backend_full_at 2, start_time = 0, ticks = []\<rparr>"
          "\<lparr>gpus = ''0,1,2'', memory = 1, duration = 0\<rparr>" "[0, 1, 2]" 2]
    by (simp add: p)
qed

subsection \<open>C2: an id out of range is rejected before any allocation\<close>

text \<open>
  Claim C2. For every request list and device count \<open>N\<close>, if some requested id lies outside
  \<open>[0, N)\<close>, the script exits with status 1 and the message that names the first such id
  (and \<open>N\<close>), and it has made no backend call at all: no allocation, no clear. The
  validation loop runs to its end before the first allocation.
\<close>

theorem invalid_gpu_id_rejected_before_allocation:
  assumes "deps e = TorchWithCuda"
      and "parse_gpu_ids (gpus a) = Some gpu_ids"
      and "g \<in> set gpu_ids"
      and "g < 0 \<or> device_count e \<le> g"
  shows "\<exists>bad. find (\<lambda>g. g < 0 \<or> device_count e \<le> g) gpu_ids = Some bad \<and>
           main a e =
             \<lparr>exit_code = Some 1, err = Some (GpuNotFound bad (device_count e)), held = [],
              trace = [], hold = None\<rparr>"
proof -
  from assms(3,4) obtain bad where
    bad: "find (\<lambda>g. g < 0 \<or> device_count e \<le> g) gpu_ids = Some bad"
    by (cases "find (\<lambda>g. g < 0 \<or> device_count e \<le> g) gpu_ids") (auto simp: find_None_iff)
  then have "validate_gpu_ids (device_count e) gpu_ids = Inl (GpuNotFound bad (device_count e))"
    by (simp add: validate_gpu_ids_find)
  with assms(1,2) have "main a e = exit_early (GpuNotFound bad (device_count e))"
    by (simp add: main_def check_dependencies_def)
  with bad show ?thesis by (simp add: exit_early_def)
qed

text \<open>Four devices, ids 0, 4 and 7: the run stops at id 4, the boundary value \<open>N\<close>.\<close>

theorem invalid_gpu_id_rejected_before_allocation_witness:
  "parse_gpu_ids (gpus \<lparr>gpus = ''0,4,7'', memory = 1, duration = 0\<rparr>) = Some [0, 4, 7] \<and>
   (7::int) \<in> set [0, 4, 7] \<and> (4::int) \<le> 7 \<and>
   find (\<lambda>g. g < 0 \<or> (4::int) \<le> g) [0, 4, 7] = Some 4 \<and>
   main \<lparr>gpus = ''0,4,7'', memory = 1, duration = 0\<rparr>
        \<lparr>deps = TorchWithCuda, device_count = 4, backend = backend_ok,
         start_time = 0, ticks = []\<rparr> =
     \<lparr>exit_code = Some 1, err = Some (GpuNotFound 4 4), held = [], trace = [], hold = None\<rparr>"
proof -
  have p: "parse_gpu_ids (gpus \<lparr>gpus = ''0,4,7'', memory = 1, duration = 0\<rparr>) = Some [0, 4, 7]"
    by code_simp
  show ?thesis
    using invalid_gpu_id_rejected_before_allocation
      [of "\<lparr>deps = TorchWithCuda, device_count = 4, backend = backend_ok,
            start_time = 0, ticks = []\<rparr>"
          "\<lparr>gpus = ''0,4,7'', memory = 1, duration = 0\<rparr>" "[0, 4, 7]" 7] p
    by simp
qed

subsection \<open>C4: when the timeout fires\<close>

text \<open>
  Claim C4. The hold loop leaves through the timeout exactly when the duration is positive
  and the elapsed time since entry is at least the duration. The comparison is made once
  per iteration, after the sleep and the touches, on the clock value read there. A run of
  \<^verbatim>\<open>main\<close> ends by timeout only with a positive duration and a clock value at least that
  far from the start; and in iterations without signal or error the loop stops at the
  first clock value that far from the start when the duration is positive, and keeps
  running through any number of iterations when the duration is 0 (or less).
\<close>

theorem timeout_fires_exactly_when_duration_elapsed:
  "(hold (main a e) = Some (TimedOut t) \<longrightarrow>
      duration a > 0 \<and> of_int (duration a) \<le> t - start_time e \<and>
      (\<exists>k\<in>set (ticks e). now k = t)) \<and>
   ((\<forall>k\<in>set ks. disturbance k = None) \<longrightarrow>
      snd (hold_loop dur start ts ks) =
        (if dur > 0 then
           (case find (\<lambda>k. now k - start \<ge> of_int dur) ks of
              None \<Rightarrow> Running
            | Some k \<Rightarrow> TimedOut (now k))
         else Running))"
proof (rule conjI; rule impI)
  assume h: "hold (main a e) = Some (TimedOut t)"
  show "duration a > 0 \<and> of_int (duration a) \<le> t - start_time e \<and>
      (\<exists>k\<in>set (ticks e). now k = t)"
  proof (cases rule: main_cases [of a e])
    case (early x)
    with h show ?thesis by (simp add: exit_early_def)
  next
    case (alloc ids es x)
    with h show ?thesis by simp
  next
    case (hold ids)
    with h have "snd (hold_loop (duration a) (start_time e)
                   (map (new_tensor (memory a)) ids) (ticks e)) = TimedOut t"
      by (simp add: hold_and_release_hold)
    then show ?thesis by (rule hold_loop_TimedOut)
  qed
next
  assume "\<forall>k\<in>set ks. disturbance k = None"
  then show "snd (hold_loop dur start ts ks) =
        (if dur > 0 then
           (case find (\<lambda>k. now k - start \<ge> of_int dur) ks of
              None \<Rightarrow> Running
            | Some k \<Rightarrow> TimedOut (now k))
         else Running)"
    by (rule hold_loop_quiet)
qed

text \<open>
  Duration 25, started at clock value 100, checks at 110, 120, 130, 140: still running
  after two iterations, stopped at 130 after four; with duration 0 still running however
  late the clock.
\<close>

theorem timeout_fires_exactly_when_duration_elapsed_witness:
  "hold (main \<lparr>gpus = ''0'', memory = 1, duration = 25\<rparr>
          \<lparr>deps = TorchWithCuda, device_count = 1, backend = backend_ok, start_time = 100,
           ticks = [\<lparr>disturbance = None, now = 110\<rparr>, \<lparr>disturbance = None, now = 120\<rparr>,
                    \<lparr>disturbance = None, now = 130\<rparr>, \<lparr>disturbance = None, now = 140\<rparr>]\<rparr>)
     = Some (TimedOut 130) \<and>
   (0::int) < 25 \<and> of_int (25::int) \<le> (130::real) - 100 \<and>
   snd (hold_loop 25 100 []
          [\<lparr>disturbance = None, now = 110\<rparr>, \<lparr>disturbance = None, now = 120\<rparr>]) = Running \<and>
   snd (hold_loop 25 100 []
          [\<lparr>disturbance = None, now = 110\<rparr>, \<lparr>disturbance = None, now = 120\<rparr>,
           \<lparr>disturbance = None, now = 130\<rparr>, \<lparr>disturbance = None, now = 140\<rparr>])
     = TimedOut 130 \<and>
   snd (hold_loop 0 100 []
          [\<lparr>disturbance = None, now = 110\<rparr>, \<lparr>disturbance = None, now = 1000000\<rparr>]) = Running"
proof -
  have p0: "parse_gpu_ids ''0'' = Some [0]" by code_simp
  have h: "hold (main \<lparr>gpus = ''0'', memory = 1, duration = 25\<rparr>
          \<lparr>deps = TorchWithCuda, device_count = 1, backend = backend_ok, start_time = 100,
           ticks = [\<lparr>disturbance = None, now = 110\<rparr>, \<lparr>disturbance = None, now = 120\<rparr>,
                    \<lparr>disturbance = None, now = 130\<rparr>, \<lparr>disturbance = None, now = 140\<rparr>]\<rparr>)
     = Some (TimedOut 130)"
    by (simp add: main_def check_dependencies_def p0 run_validated_def allocate_memory_def
          hold_and_release_def hold_iteration_def signal_handler_def cleanup_def)
  show ?thesis
    using h
      timeout_fires_exactly_when_duration_elapsed
        [of "\<lparr>gpus = ''0'', memory = 1, duration = 25\<rparr>"
            "\<lparr>deps = TorchWithCuda, device_count = 1, backend = backend_ok, start_time = 100,
           ticks = [\<lparr>disturbance = None, now = 110\<rparr>, \<lparr>disturbance = None, now = 120\<rparr>,
                    \<lparr>disturbance = None, now = 130\<rparr>, \<lparr>disturbance = None, now = 140\<rparr>]\<rparr>"
            130 "[\<lparr>disturbance = None, now = 110\<rparr>, \<lparr>disturbance = None, now = 120\<rparr>]"
            25 100 "[]"]
      timeout_fires_exactly_when_duration_elapsed
        [of "\<lparr>gpus = ''0'', memory = 1, duration = 25\<rparr>"
            "\<lparr>deps = TorchWithCuda, device_count = 1, backend = backend_ok, start_time = 100,
           ticks = []\<rparr>"
            130 "[\<lparr>disturbance = None, now = 110\<rparr>, \<lparr>disturbance = None, now = 120\<rparr>,
           \<lparr>disturbance = None, now = 130\<rparr>, \<lparr>disturbance = None, now = 140\<rparr>]"
            25 100 "[]"]
      timeout_fires_exactly_when_duration_elapsed
        [of "\<lparr>gpus = ''0'', memory = 1, duration = 25\<rparr>"
            "\<lparr>deps = TorchWithCuda, device_count = 1, backend = backend_ok, start_time = 100,
           ticks = []\<rparr>"
            130 "[\<lparr>disturbance = None, now = 110\<rparr>, \<lparr>disturbance = None, now = 1000000\<rparr>]"
            0 100 "[]"]
    by simp
qed

subsection \<open>C6: a signal during the hold loop\<close>

text \<open>
  Claim C6, amended. A termination signal that arrives while the hold loop is running is
  served by the installed handler at the point where it arrives: during the sleep,
  between or after the two statements of a touch, or before the duration is compared. The
  loop polls nothing. The handler clears the list of tensors, empties the cache and exits
  with status 0; the trace ends with the calls of the interrupted iteration up to that
  point, followed by the handler's two calls.
\<close>

theorem signal_runs_handler_where_it_arrives:
  assumes "deps e = TorchWithCuda"
      and "parse_gpu_ids (gpus a) = Some gpu_ids"
      and "validate_gpu_ids (device_count e) gpu_ids = Inr ()"
      and "\<forall>j<length gpu_ids. backend e j = AllocOk"
      and "ticks e = pre @ k # post"
      and "snd (hold_loop (duration a) (start_time e) (map (new_tensor (memory a)) gpu_ids) pre)
             = Running"
      and "disturbance k = Some d"
      and "signal_served d (length gpu_ids)"
  shows "hold (main a e) = Some StoppedBySignal \<and>
         exit_code (main a e) = Some 0 \<and>
         held (main a e) = [] \<and>
         trace (main a e) =
           map Alloc (map (new_tensor (memory a)) gpu_ids) @
           fst (hold_loop (duration a) (start_time e) (map (new_tensor (memory a)) gpu_ids) pre) @
           Sleep 10 # touches_before_signal d (map (new_tensor (memory a)) gpu_ids) @
           [Clear (map (new_tensor (memory a)) gpu_ids), EmptyCache]"
proof -
  define ts where "ts = map (new_tensor (memory a)) gpu_ids"
  have len: "length ts = length gpu_ids" by (simp add: ts_def)
  have it: "hold_iteration (duration a) (start_time e) ts k =
              (Sleep 10 # touches_before_signal d ts, StoppedBySignal)"
    using assms(7,8) len hold_iteration_signal [of k d ts] by simp
  then have one: "hold_loop (duration a) (start_time e) ts (k # post) =
              (Sleep 10 # touches_before_signal d ts, StoppedBySignal)"
    by simp
  have pre: "snd (hold_loop (duration a) (start_time e) ts pre) = Running"
    using assms(6) by (simp add: ts_def)
  have loop: "hold_loop (duration a) (start_time e) ts (ticks e) =
          (fst (hold_loop (duration a) (start_time e) ts pre) @
             Sleep 10 # touches_before_signal d ts, StoppedBySignal)"
    using hold_loop_append_Running [OF pre, of "k # post"] one assms(5) by simp
  have "main a e = hold_and_release (duration a) (start_time e) (ticks e) (map Alloc ts) ts"
    unfolding ts_def using assms(1-4) by (rule main_reaches_hold)
  with loop have "hold (main a e) = Some StoppedBySignal \<and>
         exit_code (main a e) = Some 0 \<and>
         held (main a e) = [] \<and>
         trace (main a e) =
           map Alloc ts @
           fst (hold_loop (duration a) (start_time e) ts pre) @
           Sleep 10 # touches_before_signal d ts @ [Clear ts, EmptyCache]"
    by (simp add: hold_and_release_hold hold_and_release_exit_code hold_and_release_held
          hold_and_release_trace)
  then show ?thesis unfolding ts_def .
qed

text \<open>Two tensors, one full iteration, then a signal during the second sleep.\<close>

theorem signal_runs_handler_where_it_arrives_witness:
  "parse_gpu_ids (gpus \<lparr>gpus = ''0,1'', memory = 1, duration = 0\<rparr>) = Some [0, 1] \<and>
   validate_gpu_ids 2 [0, 1] = Inr () \<and>
   snd (hold_loop 0 0 (map (new_tensor 1) [0, 1]) [\<lparr>disturbance = None, now = 10\<rparr>]) = Running \<and>
   signal_served SignalInSleep (length [0::int, 1]) \<and>
   exit_code (main \<lparr>gpus = ''0,1'', memory = 1, duration = 0\<rparr>
          \<lparr>deps = TorchWithCuda, device_count = 2, backend = backend_ok, start_time = 0,
           ticks = [\<lparr>disturbance = None, now = 10\<rparr>,
                    \<lparr>disturbance = Some SignalInSleep, now = 20\<rparr>]\<rparr>) = Some 0 \<and>
   trace (main \<lparr>gpus = ''0,1'', memory = 1, duration = 0\<rparr>
          \<lparr>deps = TorchWithCuda, device_count = 2, backend = backend_ok, start_time = 0,
           ticks = [\<lparr>disturbance = None, now = 10\<rparr>,
                    \<lparr>disturbance = Some SignalInSleep, now = 20\<rparr>]\<rparr>) =
     [Alloc (new_tensor 1 0), Alloc (new_tensor 1 1),
      Sleep 10, TouchAdd 0, TouchSub 0, TouchAdd 1, TouchSub 1,
      Sleep 10, Clear [new_tensor 1 0, new_tensor 1 1], EmptyCache]"
proof -
  have p: "parse_gpu_ids ''0,1'' = Some [0, 1]" by code_simp
  have r: "hold_loop 0 0 (map (new_tensor 1) [0, 1]) [\<lparr>disturbance = None, now = 10\<rparr>] =
             ([Sleep 10, TouchAdd 0, TouchSub 0, TouchAdd 1, TouchSub 1], Running)"
    by (simp add: hold_iteration_def)
  show ?thesis
    using signal_runs_handler_where_it_arrives
      [of "\<lparr>deps = TorchWithCuda, device_count = 2, backend = backend_ok, start_time = 0,
            ticks = [\<lparr>disturbance = None, now = 10\<rparr>,
                     \<lparr>disturbance = Some SignalInSleep, now = 20\<rparr>]\<rparr>"
          "\<lparr>gpus = ''0,1'', memory = 1, duration = 0\<rparr>" "[0, 1]"
          "[\<lparr>disturbance = None, now = 10\<rparr>]" "\<lparr>disturbance = Some SignalInSleep, now = 20\<rparr>"
          "[]" SignalInSleep] p r
    by simp
qed

text \<open>
  Claim C6 as stated fails. A signal during the second sleep runs the handler there and
  then: the tensors are cleared in the middle of an iteration, not at the top of one (a
  stop at the top of the third iteration would have made the touches of the second one
  first). And where the interpreter serves a signal after \<^verbatim>\<open>t += 0.0001\<close> on the second
  tensor, the handler runs before \<^verbatim>\<open>t -= 0.0001\<close>, in the middle of a touch.
\<close>

theorem signal_not_handled_at_loop_top_counterexample:
  "hold (main \<lparr>gpus = ''0,1'', memory = 1, duration = 0\<rparr>
          \<lparr>deps = TorchWithCuda, device_count = 2, backend = backend_ok, start_time = 0,
           ticks = [\<lparr>disturbance = None, now = 10\<rparr>,
                    \<lparr>disturbance = Some SignalInSleep, now = 20\<rparr>]\<rparr>) = Some StoppedBySignal \<and>
   trace (main \<lparr>gpus = ''0,1'', memory = 1, duration = 0\<rparr>
          \<lparr>deps = TorchWithCuda, device_count = 2, backend = backend_ok, start_time = 0,
           ticks = [\<lparr>disturbance = None, now = 10\<rparr>,
                    \<lparr>disturbance = Some SignalInSleep, now = 20\<rparr>]\<rparr>) =
     [Alloc (new_tensor 1 0), Alloc (new_tensor 1 1),
      Sleep 10, TouchAdd 0, TouchSub 0, TouchAdd 1, TouchSub 1,
      Sleep 10, Clear [new_tensor 1 0, new_tensor 1 1], EmptyCache] \<and>
   \<not> whole_iterations [new_tensor 1 0, new_tensor 1 1]
       (trace (main \<lparr>gpus = ''0,1'', memory = 1, duration = 0\<rparr>
          \<lparr>deps = TorchWithCuda, device_count = 2, backend = backend_ok, start_time = 0,
           ticks = [\<lparr>disturbance = None, now = 10\<rparr>,
                    \<lparr>disturbance = Some SignalInSleep, now = 20\<rparr>]\<rparr>)) \<and>
   whole_iterations [new_tensor 1 0, new_tensor 1 1]
     [Alloc (new_tensor 1 0), Alloc (new_tensor 1 1),
      Sleep 10, TouchAdd 0, TouchSub 0, TouchAdd 1, TouchSub 1,
      Sleep 10, TouchAdd 0, TouchSub 0, TouchAdd 1, TouchSub 1,
      Clear [new_tensor 1 0, new_tensor 1 1], EmptyCache] \<and>
   trace (main \<lparr>gpus = ''0,1'', memory = 1, duration = 0\<rparr>
          \<lparr>deps = TorchWithCuda, device_count = 2, backend = backend_ok, start_time = 0,
           ticks = [\<lparr>disturbance = Some (SignalAfterAdd 1), now = 10\<rparr>]\<rparr>) =
     [Alloc (new_tensor 1 0), Alloc (new_tensor 1 1), Sleep 10, TouchAdd 0, TouchSub 0, TouchAdd 1,
      Clear [new_tensor 1 0, new_tensor 1 1], EmptyCache] \<and>
   \<not> touches_whole (trace (main \<lparr>gpus = ''0,1'', memory = 1, duration = 0\<rparr>
          \<lparr>deps = TorchWithCuda, device_count = 2, backend = backend_ok, start_time = 0,
           ticks = [\<lparr>disturbance = Some (SignalAfterAdd 1), now = 10\<rparr>]\<rparr>))"
proof -
  have p: "parse_gpu_ids ''0,1'' = Some [0, 1]" by code_simp
  show ?thesis
    by (simp add: main_def check_dependencies_def p run_validated_def allocate_memory_def
          hold_and_release_def hold_iteration_def signal_handler_def cleanup_def whole_iterations_def Let_def
          numeral_2_eq_2)
qed

subsection \<open>C7: release on the way out\<close>

text \<open>
  Claim C7, amended. On the two exit paths the script handles, timeout and signal, the
  list of tensors is cleared and the cache emptied before the process exits: the exit
  status is 0, the list is empty, the tensors cleared are the tensors allocated, and the
  trace ends with the clear and the emptying of the cache.
\<close>

theorem timeout_and_signal_release_before_exit:
  assumes "hold (main a e) = Some s"
      and "s = StoppedBySignal \<or> s = TimedOut t"
  shows "exit_code (main a e) = Some 0 \<and>
         held (main a e) = [] \<and>
         released_by (trace (main a e)) = acquire_calls (trace (main a e)) \<and>
         (\<exists>es. trace (main a e) = es @ [Clear (acquire_calls (trace (main a e))), EmptyCache])"
proof (cases rule: main_cases [of a e])
  case (early x)
  with assms(1) show ?thesis by (simp add: exit_early_def)
next
  case (alloc ids es x)
  with assms(1) show ?thesis by simp
next
  case (hold ids)
  let ?ts = "map (new_tensor (memory a)) ids"
  from hold(5) assms(1)
  have s: "snd (hold_loop (duration a) (start_time e) ?ts (ticks e)) = s"
    by (simp add: hold_and_release_hold)
  with assms(2) have
    "snd (hold_loop (duration a) (start_time e) ?ts (ticks e)) = StoppedBySignal \<or>
     snd (hold_loop (duration a) (start_time e) ?ts (ticks e)) = TimedOut t"
    by simp
  from hold_and_release_released [OF this]
  have tr: "acquire_calls (trace (main a e)) = ?ts" "released_by (trace (main a e)) = ?ts"
    "trace (main a e) =
       map Alloc ?ts @ fst (hold_loop (duration a) (start_time e) ?ts (ticks e)) @
       [Clear ?ts, EmptyCache]"
    unfolding hold(5) by blast+
  have "exit_code (main a e) = Some 0" "held (main a e) = []"
    using hold(5) s assms(2) by (auto simp: hold_and_release_exit_code hold_and_release_held)
  moreover have "\<exists>es. trace (main a e) = es @ [Clear (acquire_calls (trace (main a e))), EmptyCache]"
    using tr(1,3) by (metis append.assoc)
  ultimately show ?thesis using tr(1,2) by simp
qed

text \<open>One tensor, duration 5, first check at 10: released by the timeout path.\<close>

theorem timeout_and_signal_release_before_exit_witness:
  "hold (main \<lparr>gpus = ''0'', memory = 1, duration = 5\<rparr>
          \<lparr>deps = TorchWithCuda, device_count = 1, backend = backend_ok, start_time = 0,
           ticks = [\<lparr>disturbance = None, now = 10\<rparr>]\<rparr>) = Some (TimedOut 10) \<and>
   exit_code (main \<lparr>gpus = ''0'', memory = 1, duration = 5\<rparr>
          \<lparr>deps = TorchWithCuda, device_count = 1, backend = backend_ok, start_time = 0,
           ticks = [\<lparr>disturbance = None, now = 10\<rparr>]\<rparr>) = Some 0 \<and>
   held (main \<lparr>gpus = ''0'', memory = 1, duration = 5\<rparr>
          \<lparr>deps = TorchWithCuda, device_count = 1, backend = backend_ok, start_time = 0,
           ticks = [\<lparr>disturbance = None, now = 10\<rparr>]\<rparr>) = [] \<and>
   released_by (trace (main \<lparr>gpus = ''0'', memory = 1, duration = 5\<rparr>
          \<lparr>deps = TorchWithCuda, device_count = 1, backend = backend_ok, start_time = 0,
           ticks = [\<lparr>disturbance = None, now = 10\<rparr>]\<rparr>)) = [new_tensor 1 0]"
proof -
  have p: "parse_gpu_ids ''0'' = Some [0]" by code_simp
  have h: "hold (main \<lparr>gpus = ''0'', memory = 1, duration = 5\<rparr>
          \<lparr>deps = TorchWithCuda, device_count = 1, backend = backend_ok, start_time = 0,
           ticks = [\<lparr>disturbance = None, now = 10\<rparr>]\<rparr>) = Some (TimedOut 10)"
    by (simp add: main_def check_dependencies_def p run_validated_def allocate_memory_def
          hold_and_release_def hold_iteration_def signal_handler_def cleanup_def)
  have t: "trace (main \<lparr>gpus = ''0'', memory = 1, duration = 5\<rparr>
          \<lparr>deps = TorchWithCuda, device_count = 1, backend = backend_ok, start_time = 0,
           ticks = [\<lparr>disturbance = None, now = 10\<rparr>]\<rparr>) =
       [Alloc (new_tensor 1 0), Sleep 10, TouchAdd 0, TouchSub 0, Clear [new_tensor 1 0], EmptyCache]"
    by (simp add: main_def check_dependencies_def p run_validated_def allocate_memory_def
          hold_and_release_def hold_iteration_def signal_handler_def cleanup_def)
  show ?thesis
    using timeout_and_signal_release_before_exit [OF h, of 10] h
    by (simp add: t)
qed

text \<open>
  Claim C7 as stated fails: an error raised by a touch is not caught by
  \<^verbatim>\<open>except KeyboardInterrupt\<close>, so the process exits with status 1 while the list still
  holds the tensor, and nothing has been cleared.
\<close>

theorem touch_error_exits_without_release_counterexample:
  "exit_code (main \<lparr>gpus = ''0'', memory = 1, duration = 0\<rparr>
          \<lparr>deps = TorchWithCuda, device_count = 1, backend = backend_ok, start_time = 0,
           ticks = [\<lparr>disturbance = Some (AddRaises 0), now = 10\<rparr>]\<rparr>) = Some 1 \<and>
   hold (main \<lparr>gpus = ''0'', memory = 1, duration = 0\<rparr>
          \<lparr>deps = TorchWithCuda, device_count = 1, backend = backend_ok, start_time = 0,
           ticks = [\<lparr>disturbance = Some (AddRaises 0), now = 10\<rparr>]\<rparr>) = Some Crashed \<and>
   held (main \<lparr>gpus = ''0'', memory = 1, duration = 0\<rparr>
          \<lparr>deps = TorchWithCuda, device_count = 1, backend = backend_ok, start_time = 0,
           ticks = [\<lparr>disturbance = Some (AddRaises 0), now = 10\<rparr>]\<rparr>) = [new_tensor 1 0] \<and>
   trace (main \<lparr>gpus = ''0'', memory = 1, duration = 0\<rparr>
          \<lparr>deps = TorchWithCuda, device_count = 1, backend = backend_ok, start_time = 0,
           ticks = [\<lparr>disturbance = Some (AddRaises 0), now = 10\<rparr>]\<rparr>) =
     [Alloc (new_tensor 1 0), Sleep 10] \<and>
   released_by (trace (main \<lparr>gpus = ''0'', memory = 1, duration = 0\<rparr>
          \<lparr>deps = TorchWithCuda, device_count = 1, backend = backend_ok, start_time = 0,
           ticks = [\<lparr>disturbance = Some (AddRaises 0), now = 10\<rparr>]\<rparr>)) = []"
proof -
  have p: "parse_gpu_ids ''0'' = Some [0]" by code_simp
  show ?thesis
    by (simp add: main_def check_dependencies_def p run_validated_def allocate_memory_def
          hold_and_release_def hold_iteration_def signal_handler_def cleanup_def)
qed

subsection \<open>C8: the exit status\<close>

text \<open>
  Claim C8. The exit status is 0 exactly when the hold loop was left by timeout or by
  signal; then every requested tensor had been allocated and all of them were cleared.
  The exit status is 1, and the hold loop is never entered, whenever the GPU ids do not
  parse, an id fails validation, or an allocation fails.
\<close>

theorem exit_status_zero_iff_released_by_timeout_or_signal:
  "(exit_code (main a e) = Some 0 \<longleftrightarrow>
      hold (main a e) = Some StoppedBySignal \<or> (\<exists>t. hold (main a e) = Some (TimedOut t))) \<and>
   (exit_code (main a e) = Some 0 \<longrightarrow>
      (\<exists>ids. parse_gpu_ids (gpus a) = Some ids \<and>
         acquire_calls (trace (main a e)) = map (new_tensor (memory a)) ids) \<and>
      released_by (trace (main a e)) = acquire_calls (trace (main a e)) \<and>
      held (main a e) = []) \<and>
   (parse_gpu_ids (gpus a) = None \<longrightarrow>
      exit_code (main a e) = Some 1 \<and> hold (main a e) = None) \<and>
   (\<forall>ids x. parse_gpu_ids (gpus a) = Some ids \<and>
        validate_gpu_ids (device_count e) ids = Inl x \<longrightarrow>
      exit_code (main a e) = Some 1 \<and> hold (main a e) = None) \<and>
   (\<forall>ids es x. parse_gpu_ids (gpus a) = Some ids \<and>
        allocate_loop (backend e) (memory a) 0 [] ids = (es, Inl x) \<longrightarrow>
      exit_code (main a e) = Some 1 \<and> hold (main a e) = None)"
  using main_exit_zero [of a e] main_exit_zero_released [of a e]
    main_early_failures(1) [of a e] main_early_failures(2) [of a _ e]
    main_early_failures(3) [of a _ e]
  by blast

text \<open>
  Four runs: released by timeout (status 0), an id that is not a number, an id out of
  range, and a second allocation out of memory (status 1 each, no hold loop).
\<close>

theorem exit_status_zero_iff_released_by_timeout_or_signal_witness:
  "exit_code (main \<lparr>gpus = ''0'', memory = 1, duration = 5\<rparr>
          \<lparr>deps = TorchWithCuda, device_count = 1, backend = backend_ok, start_time = 0,
           ticks = [\<lparr>disturbance = None, now = 10\<rparr>]\<rparr>) = Some 0 \<and>
   hold (main \<lparr>gpus = ''0'', memory = 1, duration = 5\<rparr>
          \<lparr>deps = TorchWithCuda, device_count = 1, backend = backend_ok, start_time = 0,
           ticks = [\<lparr>disturbance = None, now = 10\<rparr>]\<rparr>) = Some (TimedOut 10) \<and>
   held (main \<lparr>gpus = ''0'', memory = 1, duration = 5\<rparr>
          \<lparr>deps = TorchWithCuda, device_count = 1, backend = backend_ok, start_time = 0,
           ticks = [\<lparr>disturbance = None, now = 10\<rparr>]\<rparr>) = [] \<and>
   parse_gpu_ids (gpus \<lparr>gpus = ''0,x'', memory = 1, duration = 5\<rparr>) = None \<and>
   exit_code (main \<lparr>gpus = ''0,x'', memory = 1, duration = 5\<rparr>
          \<lparr>deps = TorchWithCuda, device_count = 1, backend = backend_ok, start_time = 0,
           ticks = []\<rparr>) = Some 1 \<and>
   parse_gpu_ids (gpus \<lparr>gpus = ''0,1'', memory = 1, duration = 5\<rparr>) = Some [0, 1] \<and>
   validate_gpu_ids 1 [0, 1] = Inl (GpuNotFound 1 1) \<and>
   exit_code (main \<lparr>gpus = ''0,1'', memory = 1, duration = 5\<rparr>
          \<lparr>deps = TorchWithCuda, device_count = 1, backend = backend_ok, start_time = 0,
           ticks = []\<rparr>) = Some 1 \<and>
   allocate_loop (backend_full_at 1) 1 0 [] [0, 1] =
     ([Alloc (new_tensor 1 0), AllocFail 1, Clear [new_tensor 1 0]], Inl (NotEnoughMemory 1 1)) \<and>
   exit_code (main \<lparr>gpus = ''0,1'', memory = 1, duration = 5\<rparr>
          \<lparr>deps = TorchWithCuda, device_count = 2,
           backend = (backend_full_at 1), start_time = 0,
           ticks = []\<rparr>) = Some 1 \<and>
   hold (main \<lparr>gpus = ''0,1'', memory = 1, duration = 5\<rparr>
          \<lparr>deps = TorchWithCuda, device_count = 2,
           backend = (backend_full_at 1), start_time = 0,
           ticks = []\<rparr>) = None"
proof -
  let ?ok = "\<lparr>deps = TorchWithCuda, device_count = 1, backend = backend_ok, start_time = 0,
           ticks = [\<lparr>disturbance = None, now = 10\<rparr>]\<rparr>"
  let ?one = "\<lparr>deps = TorchWithCuda, device_count = 1, backend = backend_ok, start_time = 0,
           ticks = []\<rparr>"
  let ?oom = "\<lparr>deps = TorchWithCuda, device_count = 2,
           backend = (backend_full_at 1), start_time = 0,
           ticks = []\<rparr>"
  have p0: "parse_gpu_ids (gpus \<lparr>gpus = ''0'', memory = 1, duration = 5\<rparr>) = Some [0]"
    by code_simp
  have px: "parse_gpu_ids (gpus \<lparr>gpus = ''0,x'', memory = 1, duration = 5\<rparr>) = None"
    by code_simp
  have p1: "parse_gpu_ids (gpus \<lparr>gpus = ''0,1'', memory = 1, duration = 5\<rparr>) = Some [0, 1]"
    by code_simp
  have h: "hold (main \<lparr>gpus = ''0'', memory = 1, duration = 5\<rparr> ?ok) = Some (TimedOut 10)"
    using p0
    by (simp add: main_def check_dependencies_def run_validated_def allocate_memory_def
          hold_and_release_def hold_iteration_def signal_handler_def cleanup_def)
  have v: "validate_gpu_ids (device_count ?one) [0, 1] = Inl (GpuNotFound 1 1)"
    by simp
  have al: "allocate_loop (backend ?oom) (memory \<lparr>gpus = ''0,1'', memory = 1, duration = 5\<rparr>)
              0 [] [0, 1] =
     ([Alloc (new_tensor 1 0), AllocFail 1, Clear [new_tensor 1 0]], Inl (NotEnoughMemory 1 1))"
    by (simp add: allocate_memory_def)
  note t1 = exit_status_zero_iff_released_by_timeout_or_signal
              [of "\<lparr>gpus = ''0'', memory = 1, duration = 5\<rparr>" ?ok]
  note t2 = exit_status_zero_iff_released_by_timeout_or_signal
              [of "\<lparr>gpus = ''0,x'', memory = 1, duration = 5\<rparr>" ?one]
  note t3 = exit_status_zero_iff_released_by_timeout_or_signal
              [of "\<lparr>gpus = ''0,1'', memory = 1, duration = 5\<rparr>" ?one]
  note t4 = exit_status_zero_iff_released_by_timeout_or_signal
              [of "\<lparr>gpus = ''0,1'', memory = 1, duration = 5\<rparr>" ?oom]
  from t1 h have c1: "exit_code (main \<lparr>gpus = ''0'', memory = 1, duration = 5\<rparr> ?ok) = Some 0"
    by blast
  with t1 have c2: "held (main \<lparr>gpus = ''0'', memory = 1, duration = 5\<rparr> ?ok) = []"
    by blast
  from t2 px have c3: "exit_code (main \<lparr>gpus = ''0,x'', memory = 1, duration = 5\<rparr> ?one) = Some 1"
    by blast
  from t3 p1 v have c4: "exit_code (main \<lparr>gpus = ''0,1'', memory = 1, duration = 5\<rparr> ?one) = Some 1"
    by blast
  from t4 p1 al have c5: "exit_code (main \<lparr>gpus = ''0,1'', memory = 1, duration = 5\<rparr> ?oom) = Some 1
      \<and> hold (main \<lparr>gpus = ''0,1'', memory = 1, duration = 5\<rparr> ?oom) = None"
    by blast
  from c1 h c2 px c3 p1 v c4 al c5 show ?thesis by simp
qed

subsection \<open>C10: durations of zero or less\<close>

text \<open>
  Claim C10, amended. With a duration of zero or less the run is the same as with
  duration 0: the timeout never fires. The hold loop is left only through the signal
  handler, on a termination signal and with status 0, or by the uncaught error of a touch,
  with status 1; a run that ends with status 0 ended in the signal handler, and as long as
  no signal and no error arrives the process stays in the hold loop.
\<close>

theorem nonpositive_duration_never_times_out:
  assumes "duration a \<le> 0"
  shows "main a e = main (a\<lparr>duration := 0\<rparr>) e \<and>
         (\<forall>t. hold (main a e) \<noteq> Some (TimedOut t)) \<and>
         (exit_code (main a e) = Some 0 \<longrightarrow> hold (main a e) = Some StoppedBySignal) \<and>
         (hold (main a e) = Some StoppedBySignal \<longrightarrow>
            exit_code (main a e) = Some 0 \<and>
            (\<exists>k\<in>set (ticks e). \<exists>d n. disturbance k = Some d \<and> signal_served d n)) \<and>
         (hold (main a e) = Some Crashed \<longrightarrow>
            exit_code (main a e) = Some 1 \<and>
            (\<exists>k\<in>set (ticks e). \<exists>j. disturbance k = Some (AddRaises j) \<or>
                                      disturbance k = Some (SubRaises j))) \<and>
         ((\<forall>k\<in>set (ticks e). disturbance k = None) \<and> hold (main a e) \<noteq> None \<longrightarrow>
            hold (main a e) = Some Running \<and> exit_code (main a e) = None)"
proof -
  have no_timeout: "\<forall>t. hold (main a e) \<noteq> Some (TimedOut t)"
  proof (cases rule: main_cases [of a e])
    case (early x)
    then show ?thesis by (simp add: exit_early_def)
  next
    case (alloc ids es x)
    then show ?thesis by simp
  next
    case (hold ids)
    show ?thesis
    proof (intro allI notI)
      fix t
      assume "hold (main a e) = Some (TimedOut t)"
      with hold(5) have "snd (hold_loop (duration a) (start_time e)
                   (map (new_tensor (memory a)) ids) (ticks e)) = TimedOut t"
        by (simp add: hold_and_release_hold)
      from hold_loop_TimedOut [OF this] assms show False by simp
    qed
  qed
  have quiet: "hold (main a e) = Some Running \<and> exit_code (main a e) = None"
    if q: "\<forall>k\<in>set (ticks e). disturbance k = None" and h: "hold (main a e) \<noteq> None"
  proof (cases rule: main_cases [of a e])
    case (early x)
    with h show ?thesis by (simp add: exit_early_def)
  next
    case (alloc ids es x)
    with h show ?thesis by simp
  next
    case (hold ids)
    have "snd (hold_loop (duration a) (start_time e)
                   (map (new_tensor (memory a)) ids) (ticks e)) = Running"
      using hold_loop_quiet [OF q, of "duration a" "start_time e"] assms by simp
    then show ?thesis
      unfolding hold(5) by (simp add: hold_and_release_hold hold_and_release_exit_code)
  qed
  have zero: "hold (main a e) = Some StoppedBySignal" if "exit_code (main a e) = Some 0"
    using that main_exit_zero [of a e] no_timeout by blast
  have cause: "(hold (main a e) = Some StoppedBySignal \<longrightarrow>
            exit_code (main a e) = Some 0 \<and>
            (\<exists>k\<in>set (ticks e). \<exists>d n. disturbance k = Some d \<and> signal_served d n)) \<and>
         (hold (main a e) = Some Crashed \<longrightarrow>
            exit_code (main a e) = Some 1 \<and>
            (\<exists>k\<in>set (ticks e). \<exists>j. disturbance k = Some (AddRaises j) \<or>
                                      disturbance k = Some (SubRaises j)))"
  proof (cases rule: main_cases [of a e])
    case (early x)
    then show ?thesis by (simp add: exit_early_def)
  next
    case (alloc ids es x)
    then show ?thesis by simp
  next
    case (hold ids)
    let ?s = "snd (hold_loop (duration a) (start_time e)
                   (map (new_tensor (memory a)) ids) (ticks e))"
    have h: "hold (main a e) = Some ?s"
      unfolding hold(5) by (simp add: hold_and_release_hold)
    have c: "exit_code (main a e) =
               (case ?s of Running \<Rightarrow> None | TimedOut t \<Rightarrow> Some 0
                | StoppedBySignal \<Rightarrow> Some 0 | Crashed \<Rightarrow> Some 1)"
      unfolding hold(5) by (simp add: hold_and_release_exit_code)
    from hold_loop_cause [of "duration a" "start_time e" "map (new_tensor (memory a)) ids" "ticks e"]
      h c show ?thesis by auto
  qed
  show ?thesis
    using main_nonpositive_duration [OF assms, of e] no_timeout quiet zero cause by blast
qed

text \<open>
  Duration -5: two undisturbed iterations give the same run as duration 0, still running;
  a signal during the second sleep ends the run with status 0.
\<close>

theorem nonpositive_duration_never_times_out_witness:
  "duration \<lparr>gpus = ''0'', memory = 1, duration = - 5\<rparr> \<le> 0 \<and>
   main \<lparr>gpus = ''0'', memory = 1, duration = - 5\<rparr>
        \<lparr>deps = TorchWithCuda, device_count = 1, backend = backend_ok, start_time = 0,
         ticks = [\<lparr>disturbance = None, now = 10\<rparr>, \<lparr>disturbance = None, now = 20\<rparr>]\<rparr> =
   main \<lparr>gpus = ''0'', memory = 1, duration = 0\<rparr>
        \<lparr>deps = TorchWithCuda, device_count = 1, backend = backend_ok, start_time = 0,
         ticks = [\<lparr>disturbance = None, now = 10\<rparr>, \<lparr>disturbance = None, now = 20\<rparr>]\<rparr> \<and>
   hold (main \<lparr>gpus = ''0'', memory = 1, duration = - 5\<rparr>
        \<lparr>deps = TorchWithCuda, device_count = 1, backend = backend_ok, start_time = 0,
         ticks = [\<lparr>disturbance = None, now = 10\<rparr>, \<lparr>disturbance = None, now = 20\<rparr>]\<rparr>)
     = Some Running \<and>
   exit_code (main \<lparr>gpus = ''0'', memory = 1, duration = - 5\<rparr>
        \<lparr>deps = TorchWithCuda, device_count = 1, backend = backend_ok, start_time = 0,
         ticks = [\<lparr>disturbance = None, now = 10\<rparr>, \<lparr>disturbance = None, now = 20\<rparr>]\<rparr>)
     = None \<and>
   hold (main \<lparr>gpus = ''0'', memory = 1, duration = - 5\<rparr>
        \<lparr>deps = TorchWithCuda, device_count = 1, backend = backend_ok, start_time = 0,
         ticks = [\<lparr>disturbance = None, now = 10\<rparr>,
                  \<lparr>disturbance = Some SignalInSleep, now = 20\<rparr>]\<rparr>)
     = Some StoppedBySignal \<and>
   exit_code (main \<lparr>gpus = ''0'', memory = 1, duration = - 5\<rparr>
        \<lparr>deps = TorchWithCuda, device_count = 1, backend = backend_ok, start_time = 0,
         ticks = [\<lparr>disturbance = None, now = 10\<rparr>,
                  \<lparr>disturbance = Some SignalInSleep, now = 20\<rparr>]\<rparr>)
     = Some 0"
proof -
  let ?a = "\<lparr>gpus = ''0'', memory = 1, duration = - 5\<rparr>"
  let ?e = "\<lparr>deps = TorchWithCuda, device_count = 1, backend = backend_ok, start_time = 0,
         ticks = [\<lparr>disturbance = None, now = 10\<rparr>, \<lparr>disturbance = None, now = 20\<rparr>]\<rparr>"
  let ?s = "\<lparr>deps = TorchWithCuda, device_count = 1, backend = backend_ok, start_time = 0,
         ticks = [\<lparr>disturbance = None, now = 10\<rparr>,
                  \<lparr>disturbance = Some SignalInSleep, now = 20\<rparr>]\<rparr>"
  have p0: "parse_gpu_ids ''0'' = Some [0]" by code_simp
  have d: "duration ?a \<le> 0" by simp
  have q: "\<forall>k\<in>set (ticks ?e). disturbance k = None" by simp
  have h: "hold (main ?a ?e) \<noteq> None"
    by (simp add: main_def check_dependencies_def p0 run_validated_def allocate_memory_def
          hold_and_release_def hold_iteration_def signal_handler_def cleanup_def)
  have hs: "hold (main ?a ?s) = Some StoppedBySignal"
    by (simp add: main_def check_dependencies_def p0 run_validated_def allocate_memory_def
          hold_and_release_def hold_iteration_def signal_handler_def cleanup_def)
  note th = nonpositive_duration_never_times_out [OF d, of ?e]
  note ts = nonpositive_duration_never_times_out [OF d, of ?s]
  from th q h have r: "hold (main ?a ?e) = Some Running \<and> exit_code (main ?a ?e) = None"
    by blast
  from th have eq: "main ?a ?e = main \<lparr>gpus = ''0'', memory = 1, duration = 0\<rparr> ?e"
    by simp
  from ts hs have z: "exit_code (main ?a ?s) = Some 0" by blast
  from d eq r hs z show ?thesis by blast
qed

text \<open>
  Claim C10 as stated fails: with duration -5 and no signal at all, an error raised by the
  first touch stops the hold loop, and the process exits with status 1.
\<close>

theorem nonpositive_duration_stops_without_signal_counterexample:
  "duration \<lparr>gpus = ''0'', memory = 1, duration = - 5\<rparr> \<le> 0 \<and>
   \<not> signal_served (AddRaises 0) 1 \<and>
   hold (main \<lparr>gpus = ''0'', memory = 1, duration = - 5\<rparr>
        \<lparr>deps = TorchWithCuda, device_count = 1, backend = backend_ok, start_time = 0,
         ticks = [\<lparr>disturbance = Some (AddRaises 0), now = 10\<rparr>]\<rparr>) = Some Crashed \<and>
   exit_code (main \<lparr>gpus = ''0'', memory = 1, duration = - 5\<rparr>
        \<lparr>deps = TorchWithCuda, device_count = 1, backend = backend_ok, start_time = 0,
         ticks = [\<lparr>disturbance = Some (AddRaises 0), now = 10\<rparr>]\<rparr>) = Some 1 \<and>
   trace (main \<lparr>gpus = ''0'', memory = 1, duration = - 5\<rparr>
        \<lparr>deps = TorchWithCuda, device_count = 1, backend = backend_ok, start_time = 0,
         ticks = [\<lparr>disturbance = Some (AddRaises 0), now = 10\<rparr>]\<rparr>) =
     [Alloc (new_tensor 1 0), Sleep 10]"
proof -
  have p: "parse_gpu_ids ''0'' = Some [0]" by code_simp
  show ?thesis
    by (simp add: main_def check_dependencies_def p run_validated_def allocate_memory_def
          hold_and_release_def hold_iteration_def signal_handler_def cleanup_def)
qed

end
